theory Spec2Isabelle
  imports Main "HOL-Library.AList"
begin

section \<open>Values, documents and the document store\<close>

text \<open>
  The handlers of \<^verbatim>\<open>main.py\<close> read and write plain mappings (Python dicts) in a
  collection-oriented store. A dict is an association list in insertion order; a field
  value is one of the shapes the schemas of \<^verbatim>\<open>schemas.py\<close> allow
  (\<^verbatim>\<open>None\<close>, \<^verbatim>\<open>bool\<close>, \<^verbatim>\<open>str\<close>, \<^verbatim>\<open>int\<close>, \<^verbatim>\<open>List[str]\<close>, \<^verbatim>\<open>datetime\<close>).
  Strings are lists of characters with code points 0 to 255; a timestamp is a number.
\<close>

datatype val = VNull | VBool bool | VStr string | VInt int | VStrs "string list" | VTime nat

type_synonym dict = "(string \<times> val) list"

text \<open>
  A stored identifier is either the store's native identifier or a plain string.
  \<open>ObjectId h\<close> is the native identifier whose string form is \<open>h\<close>.
\<close>

datatype ident = ObjectId string | StrId string

fun str_of_id :: "ident \<Rightarrow> string" where
  "str_of_id (ObjectId h) = h"
| "str_of_id (StrId s) = s"

text \<open>Every stored document has its \<^verbatim>\<open>_id\<close>; the other fields are a dict.\<close>

record document =
  doc_id :: ident
  doc_fields :: dict

text \<open>
  The two filter shapes the handlers use: \<^verbatim>\<open>{"_id": i}\<close> and an equality filter on
  named fields such as \<^verbatim>\<open>{"user_id": u, "book_id": b}\<close>.
\<close>

datatype query = ById ident | ByFields dict

text \<open>\<^verbatim>\<open>doc.get(k)\<close> on the fields of a stored document.\<close>

definition doc_get :: "document \<Rightarrow> string \<Rightarrow> val option" where
  "doc_get d k = map_of (doc_fields d) k"

fun matches :: "query \<Rightarrow> document \<Rightarrow> bool" where
  "matches (ById i) d = (doc_id d = i)"
| "matches (ByFields flt) d = list_all (\<lambda>(k, v). doc_get d k = Some v) flt"

text \<open>\<^verbatim>\<open>collection.find_one(filter)\<close>: the first matching document, or \<^verbatim>\<open>None\<close>.\<close>

definition find_one :: "query \<Rightarrow> document list \<Rightarrow> document option" where
  "find_one q docs = find (matches q) docs"

text \<open>\<^verbatim>\<open>collection.find(filter)\<close>: every matching document, in store order.\<close>

definition find_docs :: "query \<Rightarrow> document list \<Rightarrow> document list" where
  "find_docs q docs = filter (matches q) docs"

text \<open>\<^verbatim>\<open>{"$set": upd}\<close>: each key of \<open>upd\<close> is written, in place when the field exists.\<close>

definition set_fields :: "dict \<Rightarrow> dict \<Rightarrow> dict" where
  "set_fields upd fs = fold (\<lambda>(k, v). AList.update k v) upd fs"

definition apply_set :: "dict \<Rightarrow> document \<Rightarrow> document" where
  "apply_set upd d = d\<lparr>doc_fields := set_fields upd (doc_fields d)\<rparr>"

text \<open>
  \<^verbatim>\<open>collection.update_one(filter, {"$set": upd})\<close>: the first matching document is
  updated; with no match nothing changes.
\<close>

fun update_one :: "query \<Rightarrow> dict \<Rightarrow> document list \<Rightarrow> document list" where
  "update_one q upd [] = []"
| "update_one q upd (d # ds) =
     (if matches q d then apply_set upd d # ds else d # update_one q upd ds)"

text \<open>
  The state the handlers act on: the collections of the store by name, and the files
  on disk (path and contents).
\<close>

record store =
  colls :: "string \<Rightarrow> document list"
  files :: "(string \<times> string) list"

definition put_coll :: "string \<Rightarrow> document list \<Rightarrow> store \<Rightarrow> store" where
  "put_coll name docs s = s\<lparr>colls := (colls s)(name := docs)\<rparr>"

definition empty_store :: store where
  "empty_store = \<lparr>colls = (\<lambda>_. []), files = []\<rparr>"

text \<open>
  Modelled from the spec: \<^verbatim>\<open>create_document\<close> of the module \<^verbatim>\<open>database\<close>, which is
  not among the sources. "create(collection, document) -> id: serializes the document
  (validated shape -> plain dict) and inserts it; returns a stringified identifier."
  The document arrives here already serialized (\<open>model_dump\<close>); the store gives it the
  native identifier \<open>ObjectId new_id\<close>, where \<open>new_id\<close> stands for the store's choice.
\<close>

definition create_document :: "string \<Rightarrow> string \<Rightarrow> dict \<Rightarrow> store \<Rightarrow> string \<times> store" where
  "create_document new_id collection_name data s =
     (str_of_id (ObjectId new_id),
      put_coll collection_name
        (colls s collection_name @ [\<lparr>doc_id = ObjectId new_id, doc_fields = data\<rparr>]) s)"

text \<open>
  Modelled from the spec: \<^verbatim>\<open>get_documents\<close> of the module \<^verbatim>\<open>database\<close>, which is
  not among the sources. "query(collection, filter) -> sequence of documents: returns all
  matching documents as plain mappings, identifiers stringified for transport."
\<close>

definition plain :: "document \<Rightarrow> dict" where
  "plain d = (''_id'', VStr (str_of_id (doc_id d))) # doc_fields d"

definition get_documents :: "string \<Rightarrow> dict \<Rightarrow> store \<Rightarrow> dict list" where
  "get_documents collection_name flt s =
     map plain (find_docs (ByFields flt) (colls s collection_name))"

section \<open>Python strings\<close>

text \<open>
  \<^verbatim>\<open>str.lower\<close> on one character with a code point from 0 to 255: the letters A to Z
  are lowered, and so are the capitals from U+00C0 to U+00DE other than the
  multiplication sign U+00D7, each to the code point 32 above; every other character of
  that range is its own lower case.
\<close>

definition lower_char :: "char \<Rightarrow> char" where
  "lower_char c =
     (case map_of (zip ''ABCDEFGHIJKLMNOPQRSTUVWXYZ'' ''abcdefghijklmnopqrstuvwxyz'') c of
        Some l \<Rightarrow> l
      | None \<Rightarrow>
          (let n = (of_char c :: nat)
           in if (192 \<le> n \<and> n \<le> 214) \<or> (216 \<le> n \<and> n \<le> 222) then char_of (n + 32) else c))"

definition lower :: "string \<Rightarrow> string" where
  "lower s = map lower_char s"

definition startswith :: "string \<Rightarrow> string \<Rightarrow> bool" where
  "startswith s p = (take (length p) s = p)"

definition endswith :: "string \<Rightarrow> string \<Rightarrow> bool" where
  "endswith s suf = (length suf \<le> length s \<and> drop (length s - length suf) s = suf)"

text \<open>
  \<^verbatim>\<open>s.replace(old, new)\<close>: every non-overlapping occurrence of \<open>old\<close>, left to right
  (an empty \<open>old\<close> matches before every character and at the end).
\<close>

fun replace :: "string \<Rightarrow> string \<Rightarrow> string \<Rightarrow> string" where
  "replace [] old new = (if old = [] then new else [])"
| "replace (c # cs) old new =
     (if old = [] then new @ c # replace cs old new
      else if startswith (c # cs) old then new @ replace (drop (length old) (c # cs)) old new
      else c # replace cs old new)"

text \<open>\<^verbatim>\<open>os.path.join(a, b)\<close> for two components.\<close>

definition path_join :: "string \<Rightarrow> string \<Rightarrow> string" where
  "path_join a b =
     (if startswith b ''/'' then b
      else if a = [] \<or> endswith a ''/'' then a @ b
      else a @ ''/'' @ b)"

definition opt_str :: "string option \<Rightarrow> val" where
  "opt_str x = (case x of None \<Rightarrow> VNull | Some s \<Rightarrow> VStr s)"

definition opt_int :: "int option \<Rightarrow> val" where
  "opt_int x = (case x of None \<Rightarrow> VNull | Some i \<Rightarrow> VInt i)"

definition opt_strs :: "string list option \<Rightarrow> val" where
  "opt_strs x = (case x of None \<Rightarrow> VNull | Some l \<Rightarrow> VStrs l)"

definition opt_time :: "nat option \<Rightarrow> val" where
  "opt_time x = (case x of None \<Rightarrow> VNull | Some t \<Rightarrow> VTime t)"

section \<open>The schemas\<close>

record Subject =
  subject_user_id :: string
  subject_name :: string
  subject_description :: "string option"

record Book =
  book_user_id :: string
  book_subject_id :: string
  book_title :: string
  book_original_filename :: "string option"
  book_file_path :: "string option"
  book_pages :: "string list option"
  book_num_pages :: "int option"

datatype source_mode = Page_range | Lines | Chapter | Custom

record LessonRequest =
  req_user_id :: string
  req_subject_id :: string
  req_book_id :: string
  req_prompt :: string
  req_source_mode :: source_mode
  req_start_page :: "int option"
  req_end_page :: "int option"
  req_lines :: "int option"

datatype lesson_status = Pending | Processing | Complete | Error

fun status_str :: "lesson_status \<Rightarrow> string" where
  "status_str Pending = ''pending''"
| "status_str Processing = ''processing''"
| "status_str Complete = ''complete''"
| "status_str Error = ''error''"

record Lesson =
  lesson_user_id :: string
  lesson_subject_id :: string
  lesson_book_id :: string
  lesson_request_id :: "string option"
  lesson_prompt :: string
  lesson_status :: lesson_status
  lesson_input_excerpt :: "string option"
  lesson_explanation :: "string option"
  lesson_analogies :: "string list option"
  lesson_error :: "string option"
  lesson_scheduled_at :: "nat option"

record Progress =
  progress_user_id :: string
  progress_subject_id :: string
  progress_book_id :: string
  progress_last_covered_page :: "int option"
  progress_last_covered_line :: "int option"
  progress_notes :: "string option"

text \<open>\<^verbatim>\<open>model_dump()\<close>: every field of the model, in declaration order.\<close>

definition model_dump_Subject :: "Subject \<Rightarrow> dict" where
  "model_dump_Subject x =
     [(''user_id'', VStr (subject_user_id x)),
      (''name'', VStr (subject_name x)),
      (''description'', opt_str (subject_description x))]"

definition model_dump_Book :: "Book \<Rightarrow> dict" where
  "model_dump_Book x =
     [(''user_id'', VStr (book_user_id x)),
      (''subject_id'', VStr (book_subject_id x)),
      (''title'', VStr (book_title x)),
      (''original_filename'', opt_str (book_original_filename x)),
      (''file_path'', opt_str (book_file_path x)),
      (''pages'', opt_strs (book_pages x)),
      (''num_pages'', opt_int (book_num_pages x))]"

definition model_dump_Lesson :: "Lesson \<Rightarrow> dict" where
  "model_dump_Lesson x =
     [(''user_id'', VStr (lesson_user_id x)),
      (''subject_id'', VStr (lesson_subject_id x)),
      (''book_id'', VStr (lesson_book_id x)),
      (''request_id'', opt_str (lesson_request_id x)),
      (''prompt'', VStr (lesson_prompt x)),
      (''status'', VStr (status_str (lesson_status x))),
      (''input_excerpt'', opt_str (lesson_input_excerpt x)),
      (''explanation'', opt_str (lesson_explanation x)),
      (''analogies'', opt_strs (lesson_analogies x)),
      (''error'', opt_str (lesson_error x)),
      (''scheduled_at'', opt_time (lesson_scheduled_at x))]"

definition model_dump_Progress :: "Progress \<Rightarrow> dict" where
  "model_dump_Progress x =
     [(''user_id'', VStr (progress_user_id x)),
      (''subject_id'', VStr (progress_subject_id x)),
      (''book_id'', VStr (progress_book_id x)),
      (''last_covered_page'', opt_int (progress_last_covered_page x)),
      (''last_covered_line'', opt_int (progress_last_covered_line x)),
      (''notes'', opt_str (progress_notes x))]"

section \<open>The handlers\<close>

text \<open>
  A handler returns its JSON response or raises; either way it returns the store it
  leaves behind. \<open>Unhandled\<close> is an exception other than \<^verbatim>\<open>HTTPException\<close>.
\<close>

datatype error = HTTPException nat string | Unhandled string

datatype response = JsonObj dict | JsonList "dict list"

type_synonym outcome = "(error + response) \<times> store"

definition get_current_user_id :: "string option \<Rightarrow> string option" where
  "get_current_user_id x_user_id = x_user_id"

text \<open>Python truthiness of an \<^verbatim>\<open>Optional[str]\<close>: neither \<^verbatim>\<open>None\<close> nor empty.\<close>

definition truthy :: "string option \<Rightarrow> bool" where
  "truthy x = (case x of None \<Rightarrow> False | Some s \<Rightarrow> s \<noteq> [])"

text \<open>
  \<^verbatim>\<open>if not user_id: user_id = body.user_id\<close>, the first two lines of every writing
  handler.
\<close>

definition or_body :: "string option \<Rightarrow> string \<Rightarrow> string option" where
  "or_body user_id body_user_id = (if \<not> truthy user_id then Some body_user_id else user_id)"

definition missing_user_id :: error where
  "missing_user_id = HTTPException 401 ''Missing user id''"

definition create_subject :: "string \<Rightarrow> Subject \<Rightarrow> string option \<Rightarrow> store \<Rightarrow> outcome" where
  "create_subject new_id subject x_user_id s =
     (case or_body (get_current_user_id x_user_id) (subject_user_id subject) of
        None \<Rightarrow> (Inl missing_user_id, s)
      | Some user_id \<Rightarrow>
          if user_id = [] then (Inl missing_user_id, s)
          else
            let payload = model_dump_Subject subject;
                payload = AList.update ''user_id'' (VStr user_id) payload;
                (id', s') = create_document new_id ''subject'' payload s
            in (Inr (JsonObj [(''id'', VStr id')]), s'))"

definition list_subjects :: "string option \<Rightarrow> store \<Rightarrow> outcome" where
  "list_subjects x_user_id s =
     (case get_current_user_id x_user_id of
        None \<Rightarrow> (Inl missing_user_id, s)
      | Some user_id \<Rightarrow>
          if user_id = [] then (Inl missing_user_id, s)
          else (Inr (JsonList (get_documents ''subject'' [(''user_id'', VStr user_id)] s)), s))"

definition UPLOAD_DIR :: string where
  "UPLOAD_DIR = ''uploads''"

record UploadFile =
  filename :: string
  contents :: string

text \<open>
  \<^verbatim>\<open>open(path, "wb")\<close> and the write that follows. The directory of \<open>path\<close> must
  exist: line 82 creates the upload directory and nothing creates a directory below it,
  so the open raises \<^verbatim>\<open>FileNotFoundError\<close> (\<open>None\<close>) unless \<open>path\<close> names a file directly
  inside the upload directory. Otherwise the entry at \<open>path\<close> is created or overwritten.
\<close>

definition open_wb :: "string \<Rightarrow> string \<Rightarrow> (string \<times> string) list \<Rightarrow> (string \<times> string) list option" where
  "open_wb path data fs =
     (let name = drop (length (UPLOAD_DIR @ ''/'')) path
      in if startswith path (UPLOAD_DIR @ ''/'') \<and> name \<noteq> [] \<and> CHR ''/'' \<notin> set name
         then Some (AList.update path data fs)
         else None)"

text \<open>
  The shape of \<^verbatim>\<open>str(uuid.uuid4())\<close>: 36 characters, each a hexadecimal digit or a
  hyphen.
\<close>

definition uuid_str :: "string \<Rightarrow> bool" where
  "uuid_str u = (length u = 36 \<and> list_all (\<lambda>ch. ch \<in> set ''0123456789abcdef-'') u)"

text \<open>\<open>uuid4\<close> stands for the value of \<^verbatim>\<open>str(uuid.uuid4())\<close>.\<close>

definition upload_book :: "string \<Rightarrow> string \<Rightarrow> string \<Rightarrow> string \<Rightarrow> UploadFile \<Rightarrow> store \<Rightarrow> outcome" where
  "upload_book uuid4 new_id user_id subject_id file s =
     (if \<not> endswith (lower (filename file)) ''.pdf''
      then (Inl (HTTPException 400 ''Only PDF files are supported''), s)
      else
        let book_id = uuid4;
            fname = book_id @ ''-'' @ filename file;
            fpath = path_join UPLOAD_DIR fname
        in (case open_wb fpath (contents file) (files s) of
              None \<Rightarrow> (Inl (Unhandled ''FileNotFoundError''), s)
            | Some written \<Rightarrow>
                (let s1 = s\<lparr>files := written\<rparr>;
                     book = \<lparr>book_user_id = user_id,
                             book_subject_id = subject_id,
                             book_title = replace (filename file) ''.pdf'' [],
                             book_original_filename = Some (filename file),
                             book_file_path = Some fpath,
                             book_pages = None,
                             book_num_pages = None\<rparr>;
                     (id', s2) = create_document new_id ''book'' (model_dump_Book book) s1
                 in (Inr (JsonObj [(''id'', VStr id'), (''file_path'', VStr fpath)]), s2))))"

definition request_lesson :: "string \<Rightarrow> LessonRequest \<Rightarrow> string option \<Rightarrow> store \<Rightarrow> outcome" where
  "request_lesson new_id req x_user_id s =
     (case or_body (get_current_user_id x_user_id) (req_user_id req) of
        None \<Rightarrow> (Inl missing_user_id, s)
      | Some user_id \<Rightarrow>
          if user_id = [] then (Inl missing_user_id, s)
          else
            let lesson = \<lparr>lesson_user_id = user_id,
                          lesson_subject_id = req_subject_id req,
                          lesson_book_id = req_book_id req,
                          lesson_request_id = None,
                          lesson_prompt = req_prompt req,
                          lesson_status = Pending,
                          lesson_input_excerpt = None,
                          lesson_explanation = None,
                          lesson_analogies = None,
                          lesson_error = None,
                          lesson_scheduled_at = None\<rparr>;
                (id', s') = create_document new_id ''lesson'' (model_dump_Lesson lesson) s
            in (Inr (JsonObj [(''id'', VStr id'), (''status'', VStr ''queued'')]), s'))"

text \<open>\<open>now\<close> stands for the value of \<^verbatim>\<open>datetime.utcnow()\<close>.\<close>

definition upsert_progress :: "nat \<Rightarrow> string \<Rightarrow> Progress \<Rightarrow> string option \<Rightarrow> store \<Rightarrow> outcome" where
  "upsert_progress now new_id progress x_user_id s =
     (case or_body (get_current_user_id x_user_id) (progress_user_id progress) of
        None \<Rightarrow> (Inl missing_user_id, s)
      | Some user_id \<Rightarrow>
          if user_id = [] then (Inl missing_user_id, s)
          else
            let existing = find_one (ByFields [(''user_id'', VStr user_id),
                                               (''book_id'', VStr (progress_book_id progress))])
                             (colls s ''progress'');
                payload = model_dump_Progress progress;
                payload = AList.update ''user_id'' (VStr user_id) payload
            in (case existing of
                  Some e \<Rightarrow>
                    (Inr (JsonObj [(''id'', VStr (str_of_id (doc_id e)))]),
                     put_coll ''progress''
                       (update_one (ById (doc_id e)) (payload @ [(''updated_at'', VTime now)])
                          (colls s ''progress'')) s)
                | None \<Rightarrow>
                    (let (id', s') = create_document new_id ''progress'' payload s
                     in (Inr (JsonObj [(''id'', VStr id')]), s'))))"


text \<open>
  How a request reaches the two writing routes. The handlers take their \<open>user_id\<close> from
  \<^verbatim>\<open>Depends(get_current_user_id)\<close>, and the parameter \<^verbatim>\<open>x_user_id\<close> of that function
  (line 53) is a plain \<^verbatim>\<open>Optional[str] = None\<close> with no \<^verbatim>\<open>Header()\<close> marker (line 2 does not
  import \<^verbatim>\<open>Header\<close>): the framework reads such a parameter from the query string. The
  header \<^verbatim>\<open>X-User-Id\<close> that the comment on line 55 expects is not read.
\<close>

record request =
  headers :: "(string \<times> string) list"
  query_params :: "(string \<times> string) list"

definition header :: "request \<Rightarrow> string \<Rightarrow> string option" where
  "header rq name = map_of (headers rq) name"

definition bound_x_user_id :: "request \<Rightarrow> string option" where
  "bound_x_user_id rq = map_of (query_params rq) ''x_user_id''"

definition post_api_subjects :: "string \<Rightarrow> request \<Rightarrow> Subject \<Rightarrow> store \<Rightarrow> outcome" where
  "post_api_subjects new_id rq subject s = create_subject new_id subject (bound_x_user_id rq) s"

definition post_api_progress :: "nat \<Rightarrow> string \<Rightarrow> request \<Rightarrow> Progress \<Rightarrow> store \<Rightarrow> outcome" where
  "post_api_progress now new_id rq progress s =
     upsert_progress now new_id progress (bound_x_user_id rq) s"

text \<open>
  The dict comprehension of \<^verbatim>\<open>patch_lesson\<close>: the arguments that are not \<^verbatim>\<open>None\<close>, and
  the timestamp.
\<close>

definition lesson_updates ::
  "nat \<Rightarrow> string option \<Rightarrow> string option \<Rightarrow> string option \<Rightarrow> string list option \<Rightarrow>
   string option \<Rightarrow> dict" where
  "lesson_updates now status input_excerpt explanation analogies err =
     filter (\<lambda>(k, v). v \<noteq> VNull)
       [(''status'', opt_str status),
        (''input_excerpt'', opt_str input_excerpt),
        (''explanation'', opt_str explanation),
        (''analogies'', opt_strs analogies),
        (''error'', opt_str err),
        (''updated_at'', VTime now)]"

text \<open>
  \<^verbatim>\<open>db["lesson"].get_serializer().to_bson\<close> is not defined in the sources: it is the
  parameter \<open>to_bson\<close>, which turns the path's string into an identifier or raises
  (\<open>None\<close>). A lookup that found nothing leaves \<^verbatim>\<open>doc = None\<close>, and \<^verbatim>\<open>doc["_id"]\<close>
  then raises \<^verbatim>\<open>TypeError\<close>.
\<close>

definition patch_lesson ::
  "(string \<Rightarrow> ident option) \<Rightarrow> nat \<Rightarrow> string \<Rightarrow> string option \<Rightarrow> string option \<Rightarrow>
   string option \<Rightarrow> string list option \<Rightarrow> string option \<Rightarrow> store \<Rightarrow> outcome" where
  "patch_lesson to_bson now lesson_id status input_excerpt explanation analogies err s =
     (case to_bson lesson_id of
        None \<Rightarrow> (Inl (Unhandled ''to_bson''), s)
      | Some native \<Rightarrow>
          let doc = find_one (ById native) (colls s ''lesson'');
              doc = (if doc = None then find_one (ById (StrId lesson_id)) (colls s ''lesson'')
                     else doc);
              updates = lesson_updates now status input_excerpt explanation analogies err
          in (case doc of
                None \<Rightarrow> (Inl (Unhandled ''TypeError''), s)
              | Some d \<Rightarrow>
                  (Inr (JsonObj [(''ok'', VBool True)]),
                   put_coll ''lesson''
                     (update_one (ById (doc_id d)) updates (colls s ''lesson'')) s)))"

section \<open>Vocabulary of the properties\<close>

text \<open>The progress records of user \<open>u\<close> for book \<open>b\<close>.\<close>

definition records_for :: "string \<Rightarrow> string \<Rightarrow> document list \<Rightarrow> document list" where
  "records_for u b docs = find_docs (ByFields [(''user_id'', VStr u), (''book_id'', VStr b)]) docs"

text \<open>Identifiers are unique within a collection, as the store guarantees.\<close>

definition unique_ids :: "document list \<Rightarrow> bool" where
  "unique_ids docs = distinct (map doc_id docs)"

text \<open>
  A PATCH resolves when the serializer accepts the path's string and one of the two
  lookups of \<^verbatim>\<open>patch_lesson\<close> finds a record.
\<close>

definition resolves :: "(string \<Rightarrow> ident option) \<Rightarrow> string \<Rightarrow> document list \<Rightarrow> bool" where
  "resolves to_bson lesson_id docs =
     (case to_bson lesson_id of
        None \<Rightarrow> False
      | Some native \<Rightarrow>
          find_one (ById native) docs \<noteq> None \<or> find_one (ById (StrId lesson_id)) docs \<noteq> None)"

text \<open>
  What a second \<^verbatim>\<open>POST /api/progress\<close> writes with \<^verbatim>\<open>$set\<close>: the dumped model with the
  resolved user id, and the timestamp.
\<close>

definition progress_upd :: "string \<Rightarrow> Progress \<Rightarrow> nat \<Rightarrow> dict" where
  "progress_upd u p now =
     AList.update ''user_id'' (VStr u) (model_dump_Progress p) @ [(''updated_at'', VTime now)]"

section \<open>Example states\<close>

text \<open>
  A serializer for \<^verbatim>\<open>patch_lesson\<close>: it takes a string to the native identifier whose
  string form it is, and accepts every string.
\<close>

definition native_of_str :: "string \<Rightarrow> ident option" where
  "native_of_str h = Some (ObjectId h)"

text \<open>A lesson with a native identifier, as an earlier patch left it.\<close>

definition lesson_a1 :: document where
  "lesson_a1 = \<lparr>doc_id = ObjectId ''a1'',
     doc_fields = [(''status'', VStr ''processing''), (''explanation'', VStr ''E''),
                   (''analogies'', VStrs [''A''])]\<rparr>"

definition lesson_a1_patched :: document where
  "lesson_a1_patched = \<lparr>doc_id = ObjectId ''a1'',
     doc_fields = [(''status'', VStr ''complete''), (''explanation'', VStr ''E''),
                   (''analogies'', VStrs [''A'']), (''updated_at'', VTime 9)]\<rparr>"

text \<open>A lesson whose identifier is the string \<^verbatim>\<open>"a1"\<close>.\<close>

definition lesson_str_a1 :: document where
  "lesson_str_a1 = \<lparr>doc_id = StrId ''a1'', doc_fields = [(''status'', VStr ''pending'')]\<rparr>"

definition lesson_store :: store where
  "lesson_store = \<lparr>colls = (\<lambda>_. [])(''lesson'' := [lesson_a1]), files = []\<rparr>"

definition str_store :: store where
  "str_store = \<lparr>colls = (\<lambda>_. [])(''lesson'' := [lesson_str_a1]), files = []\<rparr>"

text \<open>
  A collection object without \<^verbatim>\<open>get_serializer\<close>, such as the collection whose
  \<^verbatim>\<open>find_one\<close> and \<^verbatim>\<open>update_one\<close> the handlers call: line 198 raises for every string.
\<close>

definition no_serializer :: "string \<Rightarrow> ident option" where
  "no_serializer h = None"

text \<open>
  A request with the header \<^verbatim>\<open>X-User-Id: u1\<close> and no query string, and a request with
  no header and the query string \<^verbatim>\<open>?x_user_id=u1\<close>.
\<close>

definition rq_header_u1 :: request where
  "rq_header_u1 = \<lparr>headers = [(''X-User-Id'', ''u1'')], query_params = []\<rparr>"

definition rq_query_u1 :: request where
  "rq_query_u1 = \<lparr>headers = [], query_params = [(''x_user_id'', ''u1'')]\<rparr>"

definition subject_anon :: Subject where
  "subject_anon = \<lparr>subject_user_id = [], subject_name = ''Chemistry'', subject_description = None\<rparr>"

text \<open>A progress record of user \<open>u2\<close> for book \<open>b1\<close>, and the store that holds it.\<close>

definition progress_doc_u2 :: document where
  "progress_doc_u2 = \<lparr>doc_id = ObjectId ''n1'',
     doc_fields = [(''user_id'', VStr ''u2''), (''subject_id'', VStr ''s1''), (''book_id'', VStr ''b1''),
                   (''last_covered_page'', VInt 3), (''last_covered_line'', VNull), (''notes'', VNull)]\<rparr>"

definition u2_store :: store where
  "u2_store = \<lparr>colls = (\<lambda>_. [])(''progress'' := [progress_doc_u2]), files = []\<rparr>"

text \<open>A string of the shape of a UUID.\<close>

definition uuid1 :: string where
  "uuid1 = ''123e4567-e89b-42d3-a456-426614174000''"

text \<open>Two subjects of two users.\<close>

definition subj_u1 :: document where
  "subj_u1 = \<lparr>doc_id = ObjectId ''s1'',
     doc_fields = [(''user_id'', VStr ''u1''), (''name'', VStr ''Chemistry''), (''description'', VNull)]\<rparr>"

definition subj_u2 :: document where
  "subj_u2 = \<lparr>doc_id = ObjectId ''s2'',
     doc_fields = [(''user_id'', VStr ''u2''), (''name'', VStr ''Physics''), (''description'', VNull)]\<rparr>"

definition subject_store :: store where
  "subject_store = \<lparr>colls = (\<lambda>_. [])(''subject'' := [subj_u1, subj_u2]), files = []\<rparr>"

text \<open>Request bodies whose \<open>user_id\<close> differs from the header's, and one with none.\<close>

definition subject_u2 :: Subject where
  "subject_u2 = \<lparr>subject_user_id = ''u2'', subject_name = ''Chemistry'', subject_description = None\<rparr>"

definition progress1 :: Progress where
  "progress1 = \<lparr>progress_user_id = ''u2'', progress_subject_id = ''s1'', progress_book_id = ''b1'',
                 progress_last_covered_page = Some 3, progress_last_covered_line = None,
                 progress_notes = None\<rparr>"

definition progress2 :: Progress where
  "progress2 = \<lparr>progress_user_id = ''u2'', progress_subject_id = ''s1'', progress_book_id = ''b1'',
                 progress_last_covered_page = Some 7, progress_last_covered_line = None,
                 progress_notes = Some ''n''\<rparr>"

definition progress_anon :: Progress where
  "progress_anon = \<lparr>progress_user_id = [], progress_subject_id = ''s1'', progress_book_id = ''b1'',
                 progress_last_covered_page = Some 3, progress_last_covered_line = None,
                 progress_notes = None\<rparr>"

definition req1 :: LessonRequest where
  "req1 = \<lparr>req_user_id = ''u2'', req_subject_id = ''s1'', req_book_id = ''b1'',
            req_prompt = ''Explain chapter 1'', req_source_mode = Lines,
            req_start_page = None, req_end_page = None, req_lines = Some 50\<rparr>"

text \<open>Progress records of user \<open>u1\<close> for book \<open>b1\<close>.\<close>

definition progress_doc1 :: document where
  "progress_doc1 = \<lparr>doc_id = ObjectId ''n1'',
     doc_fields = [(''user_id'', VStr ''u1''), (''subject_id'', VStr ''s1''), (''book_id'', VStr ''b1''),
                   (''last_covered_page'', VInt 3), (''last_covered_line'', VNull), (''notes'', VNull)]\<rparr>"

definition progress_doc2 :: document where
  "progress_doc2 = \<lparr>doc_id = ObjectId ''n1'',
     doc_fields = [(''user_id'', VStr ''u1''), (''subject_id'', VStr ''s1''), (''book_id'', VStr ''b1''),
                   (''last_covered_page'', VInt 7), (''last_covered_line'', VNull), (''notes'', VStr ''n''),
                   (''updated_at'', VTime 2)]\<rparr>"

definition progress_dup :: document where
  "progress_dup = \<lparr>doc_id = ObjectId ''n0'',
     doc_fields = [(''user_id'', VStr ''u1''), (''subject_id'', VStr ''s1''), (''book_id'', VStr ''b1''),
                   (''last_covered_page'', VInt 1), (''last_covered_line'', VNull), (''notes'', VNull)]\<rparr>"

definition dup_store :: store where
  "dup_store = \<lparr>colls = (\<lambda>_. [])(''progress'' := [progress_dup, progress_doc1]), files = []\<rparr>"

section \<open>Facts about the store operations\<close>

lemma map_of_set_fields: "map_of (set_fields upd fs) = map_of fs ++ map_of (rev upd)"
  unfolding set_fields_def
proof (induction upd arbitrary: fs)
  case Nil
  show ?case by simp
next
  case (Cons p upd)
  obtain k v where p: "p = (k, v)" by (cases p)
  have "map_of (fold (\<lambda>(k, v). AList.update k v) upd (AList.update k v fs))
        = map_of (AList.update k v fs) ++ map_of (rev upd)"
    by (rule Cons.IH)
  also have "\<dots> = map_of fs ++ map_of (rev upd @ [(k, v)])"
    by (simp add: update_conv' map_add_def fun_eq_iff split: option.splits)
  finally show ?case by (simp add: p)
qed

lemma doc_get_apply_set:
  "doc_get (apply_set upd d) k = (case map_of (rev upd) k of None \<Rightarrow> doc_get d k | Some v \<Rightarrow> Some v)"
  by (simp add: doc_get_def apply_set_def map_of_set_fields map_add_def split: option.splits)

lemma doc_id_apply_set: "doc_id (apply_set upd d) = doc_id d"
  by (simp add: apply_set_def)

lemma length_update_one: "length (update_one q upd docs) = length docs"
  by (induction docs) auto

lemma ids_update_one: "map doc_id (update_one q upd docs) = map doc_id docs"
  by (induction docs) (auto simp: doc_id_apply_set)

lemma update_one_frame:
  "map_of (rev upd) k = None \<Longrightarrow>
   list_all2 (\<lambda>d d'. doc_id d' = doc_id d \<and> doc_get d' k = doc_get d k) docs (update_one q upd docs)"
  by (induction docs) (auto simp: doc_id_apply_set doc_get_apply_set list_all2_same)

lemma update_one_unique:
  "distinct (map doc_id docs) \<Longrightarrow> e \<in> set docs \<Longrightarrow>
   update_one (ById (doc_id e)) upd docs = map (\<lambda>d. if d = e then apply_set upd d else d) docs"
proof (induction docs)
  case Nil
  then show ?case by simp
next
  case (Cons d ds)
  show ?case
  proof (cases "d = e")
    case True
    with Cons.prems have "\<forall>x\<in>set ds. x \<noteq> e" by auto
    then have "map (\<lambda>d. if d = e then apply_set upd d else d) ds = ds"
      by (simp add: map_idI)
    with True show ?thesis by simp
  next
    case False
    with Cons.prems have e: "e \<in> set ds" and "doc_id d \<noteq> doc_id e" by auto
    with Cons show ?thesis using False by simp
  qed
qed

lemma find_one_filter:
  "find_one q docs = (case find_docs q docs of [] \<Rightarrow> None | d # _ \<Rightarrow> Some d)"
  unfolding find_one_def find_docs_def by (induction docs) auto

lemma find_one_in: "find_one q docs = Some d \<Longrightarrow> d \<in> set docs \<and> matches q d"
  unfolding find_one_def by (induction docs) (auto split: if_splits)

lemma find_one_by_id:
  "distinct (map doc_id docs) \<Longrightarrow> d \<in> set docs \<Longrightarrow> find_one (ById (doc_id d)) docs = Some d"
  unfolding find_one_def by (induction docs) auto

lemma matches_one_field: "matches (ByFields [(k, v)]) = (\<lambda>d. doc_get d k = Some v)"
  by (simp add: fun_eq_iff)

lemma records_for_append:
  "records_for u b (docs @ [d]) =
     records_for u b docs @ (if doc_get d ''user_id'' = Some (VStr u) \<and> doc_get d ''book_id'' = Some (VStr b)
                             then [d] else [])"
  by (simp add: records_for_def find_docs_def)

lemma records_for_map:
  assumes "doc_get e ''user_id'' = Some (VStr u)" "doc_get e ''book_id'' = Some (VStr b)"
    and "doc_get (f e) ''user_id'' = Some (VStr u)" "doc_get (f e) ''book_id'' = Some (VStr b)"
  shows "records_for u b (map (\<lambda>d. if d = e then f d else d) docs)
         = map (\<lambda>d. if d = e then f d else d) (records_for u b docs)"
  using assms by (induction docs) (auto simp: records_for_def find_docs_def)

lemma progress_upd_key:
  "doc_get (apply_set (progress_upd u p now) d) ''user_id'' = Some (VStr u)"
  "doc_get (apply_set (progress_upd u p now) d) ''book_id'' = Some (VStr (progress_book_id p))"
  by (simp_all add: progress_upd_def doc_get_apply_set model_dump_Progress_def)

lemma progress_upd_fields:
  "doc_get (apply_set (progress_upd u p now) d) ''subject_id'' = Some (VStr (progress_subject_id p))"
  "doc_get (apply_set (progress_upd u p now) d) ''last_covered_page'' = Some (opt_int (progress_last_covered_page p))"
  "doc_get (apply_set (progress_upd u p now) d) ''last_covered_line'' = Some (opt_int (progress_last_covered_line p))"
  "doc_get (apply_set (progress_upd u p now) d) ''notes'' = Some (opt_str (progress_notes p))"
  "doc_get (apply_set (progress_upd u p now) d) ''updated_at'' = Some (VTime now)"
  by (simp_all add: progress_upd_def doc_get_apply_set model_dump_Progress_def)

lemma upsert_progress_step:
  assumes u: "or_body (get_current_user_id x) (progress_user_id p) = Some u" "u \<noteq> []"
    and uniq: "unique_ids (colls s ''progress'')"
  shows "upsert_progress now new_id p x s =
     (case records_for u (progress_book_id p) (colls s ''progress'') of
        [] \<Rightarrow> (Inr (JsonObj [(''id'', VStr new_id)]),
               put_coll ''progress''
                 (colls s ''progress'' @
                    [\<lparr>doc_id = ObjectId new_id,
                      doc_fields = AList.update ''user_id'' (VStr u) (model_dump_Progress p)\<rparr>]) s)
      | e # _ \<Rightarrow> (Inr (JsonObj [(''id'', VStr (str_of_id (doc_id e)))]),
               put_coll ''progress''
                 (map (\<lambda>d. if d = e then apply_set (progress_upd u p now) d else d)
                    (colls s ''progress'')) s))"
proof (cases "records_for u (progress_book_id p) (colls s ''progress'')")
  case Nil
  then have "find_one (ByFields [(''user_id'', VStr u), (''book_id'', VStr (progress_book_id p))])
               (colls s ''progress'') = None"
    by (simp add: find_one_filter records_for_def)
  then show ?thesis
    using u Nil by (simp add: upsert_progress_def create_document_def)
next
  case (Cons e es)
  then have f: "find_one (ByFields [(''user_id'', VStr u), (''book_id'', VStr (progress_book_id p))])
               (colls s ''progress'') = Some e"
    by (simp add: find_one_filter records_for_def)
  then have "e \<in> set (colls s ''progress'')"
    by (simp add: find_one_in)
  then have "update_one (ById (doc_id e)) upd (colls s ''progress'')
             = map (\<lambda>d. if d = e then apply_set upd d else d) (colls s ''progress'')" for upd
    using uniq by (simp add: unique_ids_def update_one_unique)
  then show ?thesis
    unfolding progress_upd_def using u Cons f by (simp add: upsert_progress_def)
qed

lemma ids_map_apply:
  "map doc_id (map (\<lambda>d. if d = e then apply_set upd d else d) docs) = map doc_id docs"
  by (induction docs) (auto simp: doc_id_apply_set)

lemma unique_ids_map_apply:
  "unique_ids docs \<Longrightarrow> unique_ids (map (\<lambda>d. if d = e then apply_set upd d else d) docs)"
  unfolding unique_ids_def by (simp only: ids_map_apply)

lemma records_for_member:
  "d \<in> set (records_for u b docs) \<Longrightarrow>
   doc_get d ''user_id'' = Some (VStr u) \<and> doc_get d ''book_id'' = Some (VStr b)"
  by (auto simp: records_for_def find_docs_def)

lemma upsert_progress_once:
  assumes u: "or_body (get_current_user_id x) (progress_user_id p) = Some u" "u \<noteq> []"
    and b: "progress_book_id p = b"
    and uniq: "unique_ids (colls s ''progress'')"
    and fresh: "records_for u b (colls s ''progress'') = [] \<longrightarrow>
                ObjectId new_id \<notin> set (map doc_id (colls s ''progress''))"
    and one: "length (records_for u b (colls s ''progress'')) \<le> 1"
    and call: "upsert_progress now new_id p x s = (r, s')"
  shows "\<exists>d. records_for u b (colls s' ''progress'') = [d]
           \<and> r = Inr (JsonObj [(''id'', VStr (str_of_id (doc_id d)))])
           \<and> unique_ids (colls s' ''progress'')
           \<and> (\<forall>e. records_for u b (colls s ''progress'') = [e] \<longrightarrow>
                  d = apply_set (progress_upd u p now) e
                  \<and> length (colls s' ''progress'') = length (colls s ''progress''))"
proof -
  let ?docs = "colls s ''progress''"
  note step = upsert_progress_step [OF u uniq, of now new_id, unfolded b call]
  show ?thesis
  proof (cases "records_for u b ?docs")
    case Nil
    let ?n = "\<lparr>doc_id = ObjectId new_id,
               doc_fields = AList.update ''user_id'' (VStr u) (model_dump_Progress p)\<rparr>"
    have r: "r = Inr (JsonObj [(''id'', VStr new_id)])"
      and s': "s' = put_coll ''progress'' (?docs @ [?n]) s"
      using step Nil by simp_all
    have key: "doc_get ?n ''user_id'' = Some (VStr u)" "doc_get ?n ''book_id'' = Some (VStr b)"
      using b by (simp_all add: doc_get_def model_dump_Progress_def)
    have docs': "colls s' ''progress'' = ?docs @ [?n]"
      by (simp add: s' put_coll_def)
    have "records_for u b (colls s' ''progress'') = [?n]"
      by (simp add: docs' records_for_append key Nil)
    moreover have "unique_ids (colls s' ''progress'')"
      using uniq fresh Nil by (simp add: docs' unique_ids_def)
    ultimately show ?thesis
      using r Nil by (intro exI [of _ ?n]) simp
  next
    case (Cons e es)
    with one have recs: "records_for u b ?docs = [e]" by simp
    let ?f = "\<lambda>d. if d = e then apply_set (progress_upd u p now) d else d"
    have r: "r = Inr (JsonObj [(''id'', VStr (str_of_id (doc_id e)))])"
      and s': "s' = put_coll ''progress'' (map ?f ?docs) s"
      using step recs by simp_all
    have docs': "colls s' ''progress'' = map ?f ?docs"
      by (simp add: s' put_coll_def)
    have "e \<in> set (records_for u b ?docs)" by (simp add: recs)
    then have key: "doc_get e ''user_id'' = Some (VStr u)" "doc_get e ''book_id'' = Some (VStr b)"
      by (simp_all add: records_for_member)
    have key': "doc_get (apply_set (progress_upd u p now) e) ''user_id'' = Some (VStr u)"
      "doc_get (apply_set (progress_upd u p now) e) ''book_id'' = Some (VStr b)"
      using b by (simp_all add: progress_upd_key)
    have "records_for u b (map ?f ?docs) = map ?f (records_for u b ?docs)"
      using key key' by (rule records_for_map)
    then have "records_for u b (colls s' ''progress'') = [apply_set (progress_upd u p now) e]"
      by (simp add: docs' recs)
    moreover have "unique_ids (colls s' ''progress'')"
      using uniq by (simp add: docs' unique_ids_map_apply)
    moreover have "length (colls s' ''progress'') = length ?docs"
      by (simp add: docs')
    ultimately show ?thesis
      using r recs by (intro exI [of _ "apply_set (progress_upd u p now) e"]) (simp add: doc_id_apply_set)
  qed
qed

lemma uuid_str_no_slash: "uuid_str u \<Longrightarrow> CHR ''/'' \<notin> set u"
  by (auto simp: uuid_str_def list_all_iff)

lemma upload_path:
  assumes "CHR ''/'' \<notin> set u"
  shows "path_join UPLOAD_DIR (u @ ''-notes.pdf'') = ''uploads/'' @ u @ ''-notes.pdf''"
    and "open_wb (''uploads/'' @ u @ ''-notes.pdf'') c fs
         = Some (AList.update (''uploads/'' @ u @ ''-notes.pdf'') c fs)"
proof -
  have "\<not> startswith (u @ ''-notes.pdf'') ''/''"
    using assms by (cases u) (auto simp: startswith_def)
  then show "path_join UPLOAD_DIR (u @ ''-notes.pdf'') = ''uploads/'' @ u @ ''-notes.pdf''"
    by (simp add: path_join_def UPLOAD_DIR_def endswith_def)
  show "open_wb (''uploads/'' @ u @ ''-notes.pdf'') c fs
         = Some (AList.update (''uploads/'' @ u @ ''-notes.pdf'') c fs)"
    using assms by (simp add: open_wb_def UPLOAD_DIR_def startswith_def)
qed

lemmas ev_defs = patch_lesson_def native_of_str_def lesson_store_def lesson_a1_def find_one_def
        lesson_updates_def opt_str_def opt_strs_def put_coll_def apply_set_def set_fields_def
        lesson_a1_patched_def doc_get_def lesson_str_a1_def str_store_def


lemmas progress_ev = upsert_progress_def or_body_def get_current_user_id_def truthy_def
  find_one_def create_document_def put_coll_def model_dump_Progress_def opt_int_def opt_str_def
  progress1_def progress2_def progress_anon_def progress_doc1_def progress_doc2_def
  progress_dup_def dup_store_def empty_store_def records_for_def find_docs_def doc_get_def
  apply_set_def set_fields_def unique_ids_def missing_user_id_def progress_upd_def

section \<open>Patching a lesson\<close>

lemma lesson_updates_absent:
  assumes "k = ''status'' \<longrightarrow> status = None"
    and "k = ''input_excerpt'' \<longrightarrow> input_excerpt = None"
    and "k = ''explanation'' \<longrightarrow> explanation = None"
    and "k = ''analogies'' \<longrightarrow> analogies = None"
    and "k = ''error'' \<longrightarrow> err = None"
    and "k \<noteq> ''updated_at''"
  shows "map_of (rev (lesson_updates now status input_excerpt explanation analogies err)) k = None"
proof -
  have "k \<notin> fst ` set (lesson_updates now status input_excerpt explanation analogies err)"
    using assms
    by (auto simp: lesson_updates_def opt_str_def opt_strs_def split: option.splits)
  then show ?thesis
    by (simp add: map_of_eq_None_iff)
qed


text \<open>
  C2. A PATCH changes, on every lesson record, none of the fields \<open>status\<close>,
  \<open>input_excerpt\<close>, \<open>explanation\<close>, \<open>analogies\<close>, \<open>error\<close> that the call leaves
  absent or null: such a field, and every other field but \<open>updated_at\<close>, keeps its
  prior value, and no record changes its identifier. In particular a patch with only
  \<open>status\<close> leaves \<open>explanation\<close> and \<open>analogies\<close> as an earlier patch set them.
\<close>

theorem patch_lesson_sparse:
  assumes "patch_lesson to_bson now lesson_id status input_excerpt explanation analogies err s = (r, s')"
    and "k = ''status'' \<longrightarrow> status = None"
    and "k = ''input_excerpt'' \<longrightarrow> input_excerpt = None"
    and "k = ''explanation'' \<longrightarrow> explanation = None"
    and "k = ''analogies'' \<longrightarrow> analogies = None"
    and "k = ''error'' \<longrightarrow> err = None"
    and "k \<noteq> ''updated_at''"
  shows "list_all2 (\<lambda>d d'. doc_id d' = doc_id d \<and> doc_get d' k = doc_get d k)
           (colls s ''lesson'') (colls s' ''lesson'')"
proof -
  let ?upd = "lesson_updates now status input_excerpt explanation analogies err"
  have none: "map_of (rev ?upd) k = None"
    using assms(2-7) by (rule lesson_updates_absent)
  have "colls s' ''lesson'' = colls s ''lesson''
        \<or> (\<exists>q. colls s' ''lesson'' = update_one q ?upd (colls s ''lesson''))"
    using assms(1)
    by (auto simp: patch_lesson_def put_coll_def Let_def split: option.splits if_splits)
  then show ?thesis
  proof
    assume "colls s' ''lesson'' = colls s ''lesson''"
    then show ?thesis by (simp add: list_all2_same)
  next
    assume "\<exists>q. colls s' ''lesson'' = update_one q ?upd (colls s ''lesson'')"
    then obtain q where "colls s' ''lesson'' = update_one q ?upd (colls s ''lesson'')" ..
    then show ?thesis using update_one_frame [OF none] by simp
  qed
qed

theorem patch_lesson_sparse_witness:
  "patch_lesson native_of_str 9 ''a1'' (Some ''complete'') None None None None lesson_store
     = (Inr (JsonObj [(''ok'', VBool True)]), put_coll ''lesson'' [lesson_a1_patched] lesson_store)
   \<and> doc_get lesson_a1_patched ''explanation'' = doc_get lesson_a1 ''explanation''
   \<and> doc_get lesson_a1 ''explanation'' = Some (VStr ''E'')
   \<and> doc_get lesson_a1_patched ''status'' = Some (VStr ''complete'')"
  using patch_lesson_sparse [of native_of_str 9 "''a1''" "Some ''complete''" None None None None
      lesson_store "Inr (JsonObj [(''ok'', VBool True)])" "put_coll ''lesson'' [lesson_a1_patched] lesson_store"
      "''explanation''"]
  by (simp add: ev_defs)


text \<open>
  C3. A PATCH whose \<open>lesson_id\<close> resolves to no stored lesson is claimed to be a silent
  no-op. The handler does leave the store as it was, but it does not complete: with
  \<^verbatim>\<open>doc = None\<close> the subscript \<^verbatim>\<open>doc["_id"]\<close> raises, so the call ends in an unhandled
  exception instead of \<^verbatim>\<open>{"ok": True}\<close>.
\<close>

theorem patch_lesson_unresolved:
  assumes "\<not> resolves to_bson lesson_id (colls s ''lesson'')"
  shows "\<exists>e. patch_lesson to_bson now lesson_id status input_excerpt explanation analogies err s
           = (Inl (Unhandled e), s)"
  using assms
  by (auto simp: resolves_def patch_lesson_def Let_def split: option.splits)

theorem patch_lesson_unresolved_witness:
  "\<not> resolves native_of_str ''abc'' (colls empty_store ''lesson'')
   \<and> patch_lesson native_of_str 9 ''abc'' (Some ''complete'') None None None None empty_store
       = (Inl (Unhandled ''TypeError''), empty_store)"
  using patch_lesson_unresolved [of native_of_str "''abc''" empty_store 9 "Some ''complete''" None None None None]
  by (simp add: resolves_def native_of_str_def empty_store_def find_one_def patch_lesson_def)


text \<open>
  C4. A PATCH with the string form of a stored lesson's identifier is claimed to locate
  and patch that lesson, whether the stored identifier is native or a string. Line 198
  calls the serializer outside any guard, so when the serializer raises (it is not
  present, or it refuses the string) the call ends there: no lookup runs, not even the
  string match of lines 200 and 201 that the comment on line 199 announces for that
  case, and every lesson is left as it was.
\<close>

theorem patch_lesson_serializer_raises:
  assumes "to_bson lesson_id = None"
  shows "fst (patch_lesson to_bson now lesson_id status input_excerpt explanation analogies err s)
           = Inl (Unhandled ''to_bson'')
         \<and> colls (snd (patch_lesson to_bson now lesson_id status input_excerpt explanation
                          analogies err s)) = colls s"
  using assms by (simp add: patch_lesson_def)

theorem patch_lesson_serializer_raises_witness:
  "no_serializer ''a1'' = None
   \<and> colls str_store ''lesson'' = [lesson_str_a1]
   \<and> str_of_id (doc_id lesson_str_a1) = ''a1''
   \<and> fst (patch_lesson no_serializer 9 ''a1'' (Some ''complete'') None None None None str_store)
       = Inl (Unhandled ''to_bson'')
   \<and> colls (snd (patch_lesson no_serializer 9 ''a1'' (Some ''complete'') None None None None
                    str_store)) ''lesson'' = [lesson_str_a1]
   \<and> doc_get lesson_str_a1 ''status'' = Some (VStr ''pending'')"
  using patch_lesson_serializer_raises [of no_serializer "''a1''" 9 "Some ''complete''" None None
      None None str_store]
  by (simp add: no_serializer_def str_store_def lesson_str_a1_def doc_get_def)

section \<open>Subjects\<close>

text \<open>
  C5. When \<^verbatim>\<open>GET /api/subjects\<close> returns documents to the user id \<open>u\<close>, they are
  exactly the stored subjects whose \<open>user_id\<close> is \<open>u\<close>: every returned document has
  \<open>user_id\<close> equal to \<open>u\<close>, and the store is left as it was.
\<close>

theorem list_subjects_own:
  assumes "list_subjects x s = (Inr (JsonList items), s')"
  shows "\<exists>u. x = Some u \<and> u \<noteq> [] \<and> s' = s
           \<and> items = map plain (filter (\<lambda>d. doc_get d ''user_id'' = Some (VStr u)) (colls s ''subject''))
           \<and> (\<forall>it\<in>set items. map_of it ''user_id'' = Some (VStr u))"
  using assms
  by (auto simp: list_subjects_def get_current_user_id_def get_documents_def find_docs_def
        matches_one_field plain_def doc_get_def split: option.splits if_splits)

theorem list_subjects_own_witness:
  "list_subjects (Some ''u1'') subject_store = (Inr (JsonList [plain subj_u1]), subject_store)
   \<and> map_of (plain subj_u1) ''user_id'' = Some (VStr ''u1'')
   \<and> doc_get subj_u2 ''user_id'' = Some (VStr ''u2'')"
  using list_subjects_own [of "Some ''u1''" subject_store "[plain subj_u1]" subject_store]
  by (simp add: list_subjects_def get_current_user_id_def get_documents_def find_docs_def
        plain_def doc_get_def subject_store_def subj_u1_def subj_u2_def)

text \<open>
  C6. A request with no \<^verbatim>\<open>X-User-Id\<close> header and an empty body \<open>user_id\<close> is claimed to
  be answered 401 with nothing written. With \<^verbatim>\<open>?x_user_id=u1\<close> in its query string such
  a request is accepted: the handler inserts a subject owned by \<open>u1\<close>.
\<close>

theorem post_api_subjects_query_user_id:
  "header rq_query_u1 ''X-User-Id'' = None
   \<and> subject_user_id subject_anon = []
   \<and> fst (post_api_subjects ''n1'' rq_query_u1 subject_anon empty_store)
       = Inr (JsonObj [(''id'', VStr ''n1'')])
   \<and> colls (snd (post_api_subjects ''n1'' rq_query_u1 subject_anon empty_store)) ''subject''
       = [\<lparr>doc_id = ObjectId ''n1'',
           doc_fields = [(''user_id'', VStr ''u1''), (''name'', VStr ''Chemistry''),
                         (''description'', VNull)]\<rparr>]"
  by (simp add: header_def rq_query_u1_def subject_anon_def post_api_subjects_def
        bound_x_user_id_def create_subject_def or_body_def get_current_user_id_def truthy_def
        model_dump_Subject_def opt_str_def create_document_def put_coll_def empty_store_def)

section \<open>Uploading a book\<close>

text \<open>
  C7, as amended. When the file name, lowered, does not end in \<^verbatim>\<open>.pdf\<close>, the upload
  raises 400 and leaves files and collections as they were.
\<close>

theorem upload_book_rejects:
  assumes "\<not> endswith (lower (filename file)) ''.pdf''"
  shows "upload_book uuid4 new_id user_id subject_id file s
         = (Inl (HTTPException 400 ''Only PDF files are supported''), s)"
  using assms by (simp add: upload_book_def)

theorem upload_book_rejects_witness:
  "\<not> endswith (lower (filename \<lparr>filename = ''notes.txt'', contents = ''x''\<rparr>)) ''.pdf''
   \<and> upload_book ''b1'' ''o1'' ''u1'' ''s1'' \<lparr>filename = ''notes.txt'', contents = ''x''\<rparr> empty_store
       = (Inl (HTTPException 400 ''Only PDF files are supported''), empty_store)"
  using upload_book_rejects [of "\<lparr>filename = ''notes.txt'', contents = ''x''\<rparr>" "''b1''" "''o1''" "''u1''" "''s1''" empty_store]
  by (simp add: endswith_def lower_def lower_char_def)

text \<open>
  C7, as stated, fails: \<^verbatim>\<open>NOTES.PDF\<close> does not end in \<^verbatim>\<open>.pdf\<close>, yet the upload is
  accepted, the file is written and a book record is created, because the handler
  compares the lowered name.
\<close>

theorem upload_book_upper_case_accepted:
  "\<not> endswith ''NOTES.PDF'' ''.pdf''
   \<and> fst (upload_book ''b1'' ''o1'' ''u1'' ''s1'' \<lparr>filename = ''NOTES.PDF'', contents = ''x''\<rparr> empty_store)
       = Inr (JsonObj [(''id'', VStr ''o1''), (''file_path'', VStr ''uploads/b1-NOTES.PDF'')])
   \<and> files (snd (upload_book ''b1'' ''o1'' ''u1'' ''s1'' \<lparr>filename = ''NOTES.PDF'', contents = ''x''\<rparr> empty_store))
       = [(''uploads/b1-NOTES.PDF'', ''x'')]
   \<and> map doc_id (colls (snd (upload_book ''b1'' ''o1'' ''u1'' ''s1''
         \<lparr>filename = ''NOTES.PDF'', contents = ''x''\<rparr> empty_store)) ''book'') = [ObjectId ''o1'']"
  by (simp add: upload_book_def endswith_def lower_def lower_char_def path_join_def UPLOAD_DIR_def
        open_wb_def startswith_def create_document_def put_coll_def empty_store_def Let_def)

text \<open>
  C8. With \<open>uuid4\<close> of the shape of a UUID, uploading \<^verbatim>\<open>notes.pdf\<close> for user \<open>u1\<close> and
  subject \<open>s1\<close> answers with the new id and the file path, writes the file, and leaves
  the collection \<open>book\<close> with exactly one record more and every other collection as it
  was; the new record has title \<open>notes\<close>, user \<open>u1\<close>, subject \<open>s1\<close>, and \<open>pages\<close> and
  \<open>num_pages\<close> null.
\<close>

theorem upload_book_notes:
  assumes "uuid_str uuid4"
  shows "\<exists>d. fst (upload_book uuid4 new_id ''u1'' ''s1'' \<lparr>filename = ''notes.pdf'', contents = c\<rparr> s)
             = Inr (JsonObj [(''id'', VStr (str_of_id (doc_id d))),
                             (''file_path'', VStr (''uploads/'' @ uuid4 @ ''-notes.pdf''))])
           \<and> colls (snd (upload_book uuid4 new_id ''u1'' ''s1''
                            \<lparr>filename = ''notes.pdf'', contents = c\<rparr> s)) ''book''
             = colls s ''book'' @ [d]
           \<and> colls (snd (upload_book uuid4 new_id ''u1'' ''s1''
                            \<lparr>filename = ''notes.pdf'', contents = c\<rparr> s))
             = (colls s)(''book'' := colls s ''book'' @ [d])
           \<and> files (snd (upload_book uuid4 new_id ''u1'' ''s1''
                            \<lparr>filename = ''notes.pdf'', contents = c\<rparr> s))
             = AList.update (''uploads/'' @ uuid4 @ ''-notes.pdf'') c (files s)
           \<and> doc_get d ''title'' = Some (VStr ''notes'')
           \<and> doc_get d ''user_id'' = Some (VStr ''u1'')
           \<and> doc_get d ''subject_id'' = Some (VStr ''s1'')
           \<and> doc_get d ''pages'' = Some VNull
           \<and> doc_get d ''num_pages'' = Some VNull"
proof -
  define fpath where "fpath = ''uploads/'' @ uuid4 @ ''-notes.pdf''"
  define d where "d = \<lparr>doc_id = ObjectId new_id,
             doc_fields = model_dump_Book \<lparr>book_user_id = ''u1'', book_subject_id = ''s1'',
               book_title = ''notes'', book_original_filename = Some ''notes.pdf'',
               book_file_path = Some fpath, book_pages = None, book_num_pages = None\<rparr>\<rparr>"
  have slash: "CHR ''/'' \<notin> set uuid4"
    using assms by (rule uuid_str_no_slash)
  have pj: "path_join UPLOAD_DIR (uuid4 @ ''-notes.pdf'') = fpath"
    unfolding fpath_def using slash by (rule upload_path(1))
  have ow: "open_wb fpath c (files s) = Some (AList.update fpath c (files s))"
    unfolding fpath_def using slash by (rule upload_path(2))
  have low: "endswith (lower ''notes.pdf'') ''.pdf''"
    by (simp add: endswith_def lower_def lower_char_def)
  have rep: "replace ''notes.pdf'' ''.pdf'' [] = ''notes''"
    by (simp add: startswith_def)
  have run: "upload_book uuid4 new_id ''u1'' ''s1'' \<lparr>filename = ''notes.pdf'', contents = c\<rparr> s
      = (Inr (JsonObj [(''id'', VStr new_id), (''file_path'', VStr fpath)]),
         s\<lparr>files := AList.update fpath c (files s),
           colls := (colls s)(''book'' := colls s ''book'' @ [d])\<rparr>)"
    by (simp add: upload_book_def Let_def low rep startswith_def pj ow create_document_def put_coll_def d_def)
  have fields: "doc_id d = ObjectId new_id"
    "doc_get d ''title'' = Some (VStr ''notes'')"
    "doc_get d ''user_id'' = Some (VStr ''u1'')"
    "doc_get d ''subject_id'' = Some (VStr ''s1'')"
    "doc_get d ''pages'' = Some VNull"
    "doc_get d ''num_pages'' = Some VNull"
    by (simp_all add: d_def doc_get_def model_dump_Book_def opt_strs_def opt_int_def)
  show ?thesis
    unfolding fpath_def [symmetric]
    by (rule exI [of _ d]) (simp add: run fields)
qed

theorem upload_book_notes_witness:
  "uuid_str uuid1
   \<and> fst (upload_book uuid1 ''n1'' ''u1'' ''s1'' \<lparr>filename = ''notes.pdf'', contents = ''x''\<rparr> empty_store)
       = Inr (JsonObj [(''id'', VStr ''n1''),
                       (''file_path'', VStr ''uploads/123e4567-e89b-42d3-a456-426614174000-notes.pdf'')])
   \<and> colls (snd (upload_book uuid1 ''n1'' ''u1'' ''s1''
                    \<lparr>filename = ''notes.pdf'', contents = ''x''\<rparr> empty_store)) ''book''
       = [\<lparr>doc_id = ObjectId ''n1'',
           doc_fields =
             [(''user_id'', VStr ''u1''), (''subject_id'', VStr ''s1''), (''title'', VStr ''notes''),
              (''original_filename'', VStr ''notes.pdf''),
              (''file_path'', VStr ''uploads/123e4567-e89b-42d3-a456-426614174000-notes.pdf''),
              (''pages'', VNull), (''num_pages'', VNull)]\<rparr>]"
  using upload_book_notes [of uuid1 "''n1''" "''x''" empty_store]
  by (simp add: uuid_str_def uuid1_def upload_book_def endswith_def lower_def lower_char_def
        path_join_def UPLOAD_DIR_def open_wb_def startswith_def create_document_def put_coll_def
        empty_store_def model_dump_Book_def opt_str_def opt_strs_def opt_int_def Let_def)

text \<open>A file name with a \<^verbatim>\<open>/\<close> passes the suffix test and fails at \<^verbatim>\<open>open\<close>.\<close>

lemma upload_book_slash:
  "upload_book uuid1 ''n1'' ''u1'' ''s1'' \<lparr>filename = ''a/notes.pdf'', contents = ''x''\<rparr> empty_store
   = (Inl (Unhandled ''FileNotFoundError''), empty_store)"
  by (simp add: uuid1_def upload_book_def endswith_def lower_def lower_char_def
        path_join_def UPLOAD_DIR_def open_wb_def startswith_def)

section \<open>Requesting a lesson\<close>

text \<open>
  C9. With a resolvable user id (the handler's \<open>user_id\<close> argument non-empty, or a
  non-empty body \<open>user_id\<close>), \<^verbatim>\<open>POST /api/lessons\<close> leaves the collection \<open>lesson\<close> with
  exactly one record more, of status \<open>pending\<close>, leaves every other collection and the
  files as they were, and answers with that record's id and the status \<open>queued\<close>.
\<close>

theorem request_lesson_pending:
  assumes "truthy x_user_id \<or> req_user_id req \<noteq> []"
  shows "\<exists>d. fst (request_lesson new_id req x_user_id s)
             = Inr (JsonObj [(''id'', VStr (str_of_id (doc_id d))), (''status'', VStr ''queued'')])
           \<and> colls (snd (request_lesson new_id req x_user_id s)) ''lesson''
             = colls s ''lesson'' @ [d]
           \<and> colls (snd (request_lesson new_id req x_user_id s))
             = (colls s)(''lesson'' := colls s ''lesson'' @ [d])
           \<and> files (snd (request_lesson new_id req x_user_id s)) = files s
           \<and> doc_get d ''status'' = Some (VStr ''pending'')"
proof -
  have "\<exists>u. or_body (get_current_user_id x_user_id) (req_user_id req) = Some u \<and> u \<noteq> []"
    using assms
    by (cases x_user_id) (auto simp: or_body_def get_current_user_id_def truthy_def)
  then obtain u where u: "or_body (get_current_user_id x_user_id) (req_user_id req) = Some u" "u \<noteq> []"
    by blast
  let ?d = "\<lparr>doc_id = ObjectId new_id,
             doc_fields = model_dump_Lesson \<lparr>lesson_user_id = u,
               lesson_subject_id = req_subject_id req, lesson_book_id = req_book_id req,
               lesson_request_id = None, lesson_prompt = req_prompt req, lesson_status = Pending,
               lesson_input_excerpt = None, lesson_explanation = None, lesson_analogies = None,
               lesson_error = None, lesson_scheduled_at = None\<rparr>\<rparr>"
  have run: "request_lesson new_id req x_user_id s
      = (Inr (JsonObj [(''id'', VStr new_id), (''status'', VStr ''queued'')]),
         s\<lparr>colls := (colls s)(''lesson'' := colls s ''lesson'' @ [?d])\<rparr>)"
    by (simp add: request_lesson_def u create_document_def put_coll_def)
  have st: "doc_get ?d ''status'' = Some (VStr ''pending'')"
    by (simp add: doc_get_def model_dump_Lesson_def)
  show ?thesis
    by (rule exI [of _ ?d]) (simp add: run st)
qed

theorem request_lesson_pending_witness:
  "truthy (Some ''u1'')
   \<and> fst (request_lesson ''n1'' req1 (Some ''u1'') empty_store)
       = Inr (JsonObj [(''id'', VStr ''n1''), (''status'', VStr ''queued'')])
   \<and> map doc_id (colls (snd (request_lesson ''n1'' req1 (Some ''u1'') empty_store)) ''lesson'')
       = [ObjectId ''n1'']
   \<and> map (\<lambda>d. doc_get d ''status'')
        (colls (snd (request_lesson ''n1'' req1 (Some ''u1'') empty_store)) ''lesson'')
       = [Some (VStr ''pending'')]"
  using request_lesson_pending [of "Some ''u1''" req1 "''n1''" empty_store]
  by (simp add: truthy_def request_lesson_def or_body_def get_current_user_id_def
        create_document_def put_coll_def empty_store_def model_dump_Lesson_def doc_get_def req1_def)

section \<open>The header's user id\<close>

text \<open>
  C10. A request that carries the header \<^verbatim>\<open>X-User-Id\<close> and a body \<open>user_id\<close> is claimed
  to store the header's value. The header is not read: with the header \<open>u1\<close>, the body
  \<open>u2\<close> and no query string, \<^verbatim>\<open>POST /api/subjects\<close> inserts a subject of \<open>u2\<close>, and
  \<^verbatim>\<open>POST /api/progress\<close> inserts, or finds and updates, a progress record of \<open>u2\<close>.
\<close>

theorem header_user_id_not_read:
  "header rq_header_u1 ''X-User-Id'' = Some ''u1''
   \<and> subject_user_id subject_u2 = ''u2''
   \<and> colls (snd (post_api_subjects ''n1'' rq_header_u1 subject_u2 empty_store)) ''subject''
       = [\<lparr>doc_id = ObjectId ''n1'',
           doc_fields = [(''user_id'', VStr ''u2''), (''name'', VStr ''Chemistry''),
                         (''description'', VNull)]\<rparr>]
   \<and> progress_user_id progress1 = ''u2''
   \<and> colls (snd (post_api_progress 1 ''n1'' rq_header_u1 progress1 empty_store)) ''progress''
       = [progress_doc_u2]
   \<and> progress_user_id progress2 = ''u2''
   \<and> colls (snd (post_api_progress 2 ''n2'' rq_header_u1 progress2 u2_store)) ''progress''
       = [\<lparr>doc_id = ObjectId ''n1'',
           doc_fields = [(''user_id'', VStr ''u2''), (''subject_id'', VStr ''s1''),
                         (''book_id'', VStr ''b1''), (''last_covered_page'', VInt 7),
                         (''last_covered_line'', VNull), (''notes'', VStr ''n''),
                         (''updated_at'', VTime 2)]\<rparr>]"
  by (simp add: header_def rq_header_u1_def subject_u2_def post_api_subjects_def
        post_api_progress_def bound_x_user_id_def create_subject_def model_dump_Subject_def
        progress_doc_u2_def u2_store_def progress_ev)

section \<open>Upserting progress\<close>

text \<open>
  C1, as amended. In a store whose progress records have unique identifiers (an
  inserted record gets an identifier not yet in the collection) and include at most one
  record of user \<open>u\<close> for book \<open>b\<close>, two accepted
  \<^verbatim>\<open>POST /api/progress\<close> calls in sequence for \<open>(u, b)\<close> leave exactly one such record.
  The second call inserts nothing: it returns the id of the record the first call left
  (the id the first call returned), overwrites that record with its own fields and
  stamps \<open>updated_at\<close>.
\<close>

theorem upsert_progress_twice:
  assumes u1: "or_body (get_current_user_id x1) (progress_user_id p1) = Some u"
    and u2: "or_body (get_current_user_id x2) (progress_user_id p2) = Some u"
    and ne: "u \<noteq> []"
    and b1: "progress_book_id p1 = b"
    and b2: "progress_book_id p2 = b"
    and uniq: "unique_ids (colls s ''progress'')"
    and fresh: "ObjectId new1 \<notin> set (map doc_id (colls s ''progress''))"
    and one: "length (records_for u b (colls s ''progress'')) \<le> 1"
    and c1: "upsert_progress now1 new1 p1 x1 s = (r1, s1)"
    and c2: "upsert_progress now2 new2 p2 x2 s1 = (r2, s2)"
  shows "\<exists>d. records_for u b (colls s1 ''progress'') = [d]
           \<and> records_for u b (colls s2 ''progress'') = [apply_set (progress_upd u p2 now2) d]
           \<and> length (colls s2 ''progress'') = length (colls s1 ''progress'')
           \<and> r1 = Inr (JsonObj [(''id'', VStr (str_of_id (doc_id d)))])
           \<and> r2 = r1
           \<and> doc_get (apply_set (progress_upd u p2 now2) d) ''subject_id''
               = Some (VStr (progress_subject_id p2))
           \<and> doc_get (apply_set (progress_upd u p2 now2) d) ''last_covered_page''
               = Some (opt_int (progress_last_covered_page p2))
           \<and> doc_get (apply_set (progress_upd u p2 now2) d) ''last_covered_line''
               = Some (opt_int (progress_last_covered_line p2))
           \<and> doc_get (apply_set (progress_upd u p2 now2) d) ''notes''
               = Some (opt_str (progress_notes p2))
           \<and> doc_get (apply_set (progress_upd u p2 now2) d) ''updated_at'' = Some (VTime now2)"
proof -
  from upsert_progress_once [OF u1 ne b1 uniq _ one c1] fresh
  obtain d where d: "records_for u b (colls s1 ''progress'') = [d]"
    "r1 = Inr (JsonObj [(''id'', VStr (str_of_id (doc_id d)))])"
    "unique_ids (colls s1 ''progress'')"
    by blast
  have one': "length (records_for u b (colls s1 ''progress'')) \<le> 1"
    by (simp add: d(1))
  have fresh': "records_for u b (colls s1 ''progress'') = [] \<longrightarrow>
                ObjectId new2 \<notin> set (map doc_id (colls s1 ''progress''))"
    by (simp add: d(1))
  from upsert_progress_once [OF u2 ne b2 d(3) fresh' one' c2]
  obtain d2 where d2: "records_for u b (colls s2 ''progress'') = [d2]"
    "r2 = Inr (JsonObj [(''id'', VStr (str_of_id (doc_id d2)))])"
    "\<forall>e. records_for u b (colls s1 ''progress'') = [e] \<longrightarrow>
         d2 = apply_set (progress_upd u p2 now2) e
         \<and> length (colls s2 ''progress'') = length (colls s1 ''progress'')"
    by blast
  from d2(3) d(1) have eq: "d2 = apply_set (progress_upd u p2 now2) d"
    and len: "length (colls s2 ''progress'') = length (colls s1 ''progress'')"
    by simp_all
  have "r2 = r1"
    by (simp add: d2(2) d(2) eq doc_id_apply_set)
  then show ?thesis
    using d(1,2) d2(1) eq len by (intro exI [of _ d]) (simp add: progress_upd_fields)
qed

theorem upsert_progress_twice_witness:
  "or_body (get_current_user_id (Some ''u1'')) (progress_user_id progress1) = Some ''u1''
   \<and> or_body (get_current_user_id (Some ''u1'')) (progress_user_id progress2) = Some ''u1''
   \<and> ''u1'' \<noteq> []
   \<and> progress_book_id progress1 = ''b1'' \<and> progress_book_id progress2 = ''b1''
   \<and> unique_ids (colls empty_store ''progress'')
   \<and> ObjectId ''n1'' \<notin> set (map doc_id (colls empty_store ''progress''))
   \<and> length (records_for ''u1'' ''b1'' (colls empty_store ''progress'')) \<le> 1
   \<and> upsert_progress 1 ''n1'' progress1 (Some ''u1'') empty_store
       = (Inr (JsonObj [(''id'', VStr ''n1'')]), put_coll ''progress'' [progress_doc1] empty_store)
   \<and> upsert_progress 2 ''n2'' progress2 (Some ''u1'') (put_coll ''progress'' [progress_doc1] empty_store)
       = (Inr (JsonObj [(''id'', VStr ''n1'')]),
          put_coll ''progress'' [progress_doc2] (put_coll ''progress'' [progress_doc1] empty_store))
   \<and> records_for ''u1'' ''b1''
        (colls (put_coll ''progress'' [progress_doc2] (put_coll ''progress'' [progress_doc1] empty_store))
           ''progress'') = [progress_doc2]
   \<and> doc_get progress_doc2 ''last_covered_page'' = Some (VInt 7)"
  using upsert_progress_twice [of "Some ''u1''" progress1 "''u1''" "Some ''u1''" progress2 "''b1''"
      empty_store "''n1''" 1 "Inr (JsonObj [(''id'', VStr ''n1'')])"
      "put_coll ''progress'' [progress_doc1] empty_store" 2 "''n2''"
      "Inr (JsonObj [(''id'', VStr ''n1'')])"
      "put_coll ''progress'' [progress_doc2] (put_coll ''progress'' [progress_doc1] empty_store)"]
  by (simp add: progress_ev)

text \<open>
  C1, as stated for every store and every pair of calls, fails: a store that already
  holds two records of \<open>u1\<close> for \<open>b1\<close> still holds two after both calls, and two calls
  with no user id are both refused and leave no record.
\<close>

theorem upsert_progress_keeps_duplicates:
  "unique_ids (colls dup_store ''progress'')
   \<and> length (records_for ''u1'' ''b1''
        (colls (snd (upsert_progress 2 ''n3'' progress2 (Some ''u1'')
                  (snd (upsert_progress 1 ''n2'' progress1 (Some ''u1'') dup_store)))) ''progress'')) = 2
   \<and> upsert_progress 1 ''n2'' progress_anon None empty_store = (Inl missing_user_id, empty_store)
   \<and> records_for [] ''b1''
        (colls (snd (upsert_progress 2 ''n3'' progress_anon None
                  (snd (upsert_progress 1 ''n2'' progress_anon None empty_store)))) ''progress'') = []"
  by (simp add: progress_ev)

end
